theory Spec2Isabelle
  imports Main "HOL-Library.Sublist"
begin

section \<open>JavaScript values and error objects\<close>

text \<open>
  The values that can sit in the \<open>code\<close> property of an error object: absent
  (\<open>undefined\<close>), a string (Node's \<open>'ECONNRESET'\<close>, \<open>'ABORT_ERR'\<close>) or a number.
\<close>

datatype js_value = JUndefined | JStr string | JNum int

text \<open>
  An error object, as far as \<open>fetch.ts\<close> reads or writes one: \<open>name\<close>, \<open>message\<close>,
  \<open>code\<close> and the \<open>cause\<close> given through \<open>ErrorOptions\<close> (\<open>None\<close> when no cause
  was given).
\<close>

datatype js_error =
  JsError (err_name: string) (err_message: string) (err_code: js_value)
    (err_cause: "js_error option")

text \<open>
  Decimal rendering of a non-negative integer. JavaScript's number to string conversion
  (in a template literal) yields these digits for a non-negative integer below \<open>10^21\<close>;
  from there on it prints an exponent, and a timeout may also be negative, fractional or
  \<open>NaN\<close>. The model of \<open>fetchWithTimeout\<close> covers the timeouts of the first kind only.
\<close>

definition digit :: "nat \<Rightarrow> char" where
  "digit d = char_of (48 + d)"

fun dec :: "nat \<Rightarrow> string" where
  "dec n = (if n < 10 then [digit n] else dec (n div 10) @ [digit (n mod 10)])"

declare dec.simps [simp del]

section \<open>Regular expressions of \<open>PRIVATE_IP_RANGES\<close>\<close>

text \<open>
  The fragment of JavaScript regular expressions the source uses: the assertions \<open>^\<close> and
  \<open>$\<close> (no \<open>m\<close> flag, so they are the start and the end of the input), a literal
  character, a character class \<open>[a-b]\<close>, sequence and alternation.
\<close>

datatype regex =
  Bol | Eol | Eps | Chr char | Range char char | Seq regex regex | Alt regex regex

text \<open>
  A position in the subject string is the pair of "nothing has been consumed before
  here" and the rest of the input. \<open>rmatch r p\<close> lists the positions at which a match
  of \<open>r\<close> that starts at \<open>p\<close> can end (backtracking as a list of successes).
\<close>

fun rmatch :: "regex \<Rightarrow> bool \<times> string \<Rightarrow> (bool \<times> string) list" where
  "rmatch Bol (b, s) = (if b then [(b, s)] else [])"
| "rmatch Eol (b, s) = (if s = [] then [(b, s)] else [])"
| "rmatch Eps (b, s) = [(b, s)]"
| "rmatch (Chr c) (b, s) =
     (case s of [] \<Rightarrow> [] | x # xs \<Rightarrow> if x = c then [(False, xs)] else [])"
| "rmatch (Range lo hi) (b, s) =
     (case s of [] \<Rightarrow> []
      | x # xs \<Rightarrow>
          if (of_char lo :: nat) \<le> of_char x \<and> (of_char x :: nat) \<le> of_char hi
          then [(False, xs)] else [])"
| "rmatch (Seq r1 r2) p = concat (map (rmatch r2) (rmatch r1 p))"
| "rmatch (Alt r1 r2) p = rmatch r1 p @ rmatch r2 p"

text \<open>\<open>RegExp.prototype.test\<close>: is there a match starting at some index of the input.\<close>

definition regex_test :: "regex \<Rightarrow> string \<Rightarrow> bool" where
  "regex_test r s =
     list_ex (\<lambda>i. rmatch r (i = 0, drop i s) \<noteq> []) [0 ..< Suc (length s)]"

text \<open>A run of literal characters, such as \<open>10\.\<close>.\<close>

fun lit :: "string \<Rightarrow> regex" where
  "lit [] = Eps"
| "lit (c # cs) = Seq (Chr c) (lit cs)"

definition PRIVATE_IP_RANGES :: "regex list" where
  "PRIVATE_IP_RANGES =
     [ Seq Bol (lit ''10.''),
       Seq Bol (lit ''127.''),
       Seq Bol (Seq (lit ''172.'')
         (Seq (Alt (Seq (Chr CHR ''1'') (Range CHR ''6'' CHR ''9''))
              (Alt (Seq (Chr CHR ''2'') (Range CHR ''0'' CHR ''9''))
                   (Seq (Chr CHR ''3'') (Range CHR ''0'' CHR ''1''))))
              (Chr CHR ''.''))),
       Seq Bol (lit ''192.168.''),
       Seq Bol (Seq (lit ''::1'') Eol),
       Seq Bol (lit ''fc00:''),
       Seq Bol (lit ''fe80:'') ]"

section \<open>HostClassifier: \<open>isPrivateIp\<close>\<close>

text \<open>
  The object \<open>new URL(url)\<close> builds, with the components a caller can read. The
  constructor belongs to \<open>node:url\<close>, not to this repository: it is the parameter
  \<open>parseURL\<close> below, \<open>Inl\<close> the \<open>TypeError\<close> it throws on a string that does not parse.
\<close>

record url =
  protocol :: string
  hostname :: string
  port :: string
  pathname :: string
  search :: string

type_synonym url_parser = "string \<Rightarrow> js_error + url"

text \<open>The body of the \<open>try\<close> block: an exception of the constructor leaves it.\<close>

definition isPrivateIp_try :: "url_parser \<Rightarrow> string \<Rightarrow> js_error + bool" where
  "isPrivateIp_try parseURL u =
     (case parseURL u of
        Inl e \<Rightarrow> Inl e
      | Inr parsed \<Rightarrow>
          Inr (list_ex (\<lambda>range. regex_test range (hostname parsed)) PRIVATE_IP_RANGES))"

text \<open>\<open>catch (_e) { return false; }\<close> turns every exception into the value \<open>false\<close>.\<close>

definition isPrivateIp :: "url_parser \<Rightarrow> string \<Rightarrow> js_error + bool" where
  "isPrivateIp parseURL u =
     (case isPrivateIp_try parseURL u of Inl e \<Rightarrow> Inr False | Inr b \<Rightarrow> Inr b)"

section \<open>TimeoutGuardedRequest: \<open>FetchError\<close> and \<open>fetchWithTimeout\<close>\<close>

text \<open>
  \<open>class FetchError extends Error\<close>: the constructor hands \<open>message\<close> and the options
  (of which only \<open>cause\<close> is ever given) to \<open>Error\<close>, keeps \<open>code\<close> as a public field
  and sets \<open>name\<close>.
\<close>

definition FetchError :: "string \<Rightarrow> js_value \<Rightarrow> js_error option \<Rightarrow> js_error" where
  "FetchError message code cause = JsError ''FetchError'' message code cause"

text \<open>
  The process-wide state the module touches: the global undici dispatcher (\<open>None\<close> while
  nobody has set one and the runtime's default is in force) and the event loop's table of
  pending timers, with the counter that names the next timer.
\<close>

datatype dispatcher = Agent bool | ProxyAgent string bool

record process =
  global_dispatcher :: "dispatcher option"
  timers :: "nat set"
  next_timer :: nat

definition setTimeout :: "nat \<Rightarrow> process \<Rightarrow> nat \<times> process" where
  "setTimeout delay s =
     (next_timer s,
      s\<lparr>timers := insert (next_timer s) (timers s), next_timer := Suc (next_timer s)\<rparr>)"

definition clearTimeout :: "nat \<Rightarrow> process \<Rightarrow> process" where
  "clearTimeout timeoutId s = s\<lparr>timers := timers s - {timeoutId}\<rparr>"

text \<open>
  What the runtime does while the call is suspended at \<open>await fetch(url, {signal})\<close>:
  whether the timer fired in the meantime (its callback \<open>controller.abort()\<close> ran, and a
  fired one-shot timer is no longer pending), and how the promise settled. \<open>fetch\<close> is the
  platform's, so the run is a parameter of the model.
\<close>

datatype 'r settled = Fulfilled 'r | Rejected js_error

record 'r fetch_run =
  timer_fired :: bool
  outcome :: "'r settled"

definition await_fetch :: "'r fetch_run \<Rightarrow> nat \<Rightarrow> process \<Rightarrow> 'r settled \<times> process" where
  "await_fetch run timeoutId s =
     (outcome run, if timer_fired run then s\<lparr>timers := timers s - {timeoutId}\<rparr> else s)"

text \<open>
  The \<open>catch\<close> block. \<open>isNodeError\<close> and \<open>getErrorMessage\<close> come from \<open>./errors.js\<close>,
  which is not among the sources: they are parameters.
\<close>

definition fetchWithTimeout_catch ::
  "(js_error \<Rightarrow> bool) \<Rightarrow> (js_error \<Rightarrow> string) \<Rightarrow> nat \<Rightarrow> js_error \<Rightarrow> js_error" where
  "fetchWithTimeout_catch isNodeError getErrorMessage timeout error =
     (if isNodeError error \<and> err_code error = JStr ''ABORT_ERR''
      then FetchError (''Request timed out after '' @ dec timeout @ ''ms'') (JStr ''ETIMEDOUT'') None
      else FetchError (getErrorMessage error) JUndefined (Some error))"

text \<open>
  The whole call: start the timer, await the request, return the response or throw what
  the \<open>catch\<close> block builds (\<open>Inl\<close>), and in every case run the \<open>finally\<close> block.
  The timeout is a number of milliseconds, a non-negative integer. The
  \<open>AbortController\<close> is local to the call: its abort reaches this request only, and how
  the request reacts to it is part of the run.
\<close>

definition fetchWithTimeout ::
  "(js_error \<Rightarrow> bool) \<Rightarrow> (js_error \<Rightarrow> string) \<Rightarrow> (string \<Rightarrow> nat \<Rightarrow> 'r fetch_run) \<Rightarrow>
   string \<Rightarrow> nat \<Rightarrow> process \<Rightarrow> (js_error + 'r) \<times> process" where
  "fetchWithTimeout isNodeError getErrorMessage fetch u timeout s =
     (let (timeoutId, s1) = setTimeout timeout s;
          (settled, s2) = await_fetch (fetch u timeout) timeoutId s1;
          result =
            (case settled of
               Fulfilled response \<Rightarrow> Inr response
             | Rejected error \<Rightarrow>
                 Inl (fetchWithTimeout_catch isNodeError getErrorMessage timeout error))
      in (result, clearTimeout timeoutId s2))"

section \<open>TransportConfigurator: \<open>enableHttp2\<close> and \<open>setGlobalProxy\<close>\<close>


fun proxy_uri :: "dispatcher \<Rightarrow> string option" where
  "proxy_uri (Agent h2) = None"
| "proxy_uri (ProxyAgent u h2) = Some u"

text \<open>undici's \<open>setGlobalDispatcher\<close> replaces the dispatcher of the process.\<close>

definition setGlobalDispatcher :: "dispatcher \<Rightarrow> process \<Rightarrow> process" where
  "setGlobalDispatcher d s = s\<lparr>global_dispatcher := Some d\<rparr>"

text \<open>
  undici's \<open>ProxyAgent\<close> constructor checks its \<open>uri\<close> option and throws on one it cannot
  use. That check is the library's: \<open>rejects u\<close> is the exception it throws for \<open>u\<close>, if any.
\<close>

definition new_ProxyAgent ::
  "(string \<Rightarrow> js_error option) \<Rightarrow> string \<Rightarrow> bool \<Rightarrow> js_error + dispatcher" where
  "new_ProxyAgent rejects u h2 =
     (case rejects u of Some e \<Rightarrow> Inl e | None \<Rightarrow> Inr (ProxyAgent u h2))"

definition enableHttp2 :: "process \<Rightarrow> (js_error + unit) \<times> process" where
  "enableHttp2 s = (Inr (), setGlobalDispatcher (Agent True) s)"

definition setGlobalProxy ::
  "(string \<Rightarrow> js_error option) \<Rightarrow> string \<Rightarrow> process \<Rightarrow> (js_error + unit) \<times> process" where
  "setGlobalProxy rejects proxy s =
     (case new_ProxyAgent rejects proxy True of
        Inl e \<Rightarrow> (Inl e, s)
      | Inr agent \<Rightarrow> (Inr (), setGlobalDispatcher agent s))"

text \<open>
  A caller's sequence of configuration calls. As \<open>config.ts\<close> does around
  \<open>setGlobalProxy\<close>, the caller catches an exception and goes on, so the process state
  after the sequence is the state after its last call.
\<close>

datatype config_call = EnableHttp2 | SetGlobalProxy string

fun run_call ::
  "(string \<Rightarrow> js_error option) \<Rightarrow> config_call \<Rightarrow> process \<Rightarrow> (js_error + unit) \<times> process" where
  "run_call rejects EnableHttp2 s = enableHttp2 s"
| "run_call rejects (SetGlobalProxy proxy) s = setGlobalProxy rejects proxy s"

fun run_calls :: "(string \<Rightarrow> js_error option) \<Rightarrow> config_call list \<Rightarrow> process \<Rightarrow> process" where
  "run_calls rejects [] s = s"
| "run_calls rejects (c # cs) s = run_calls rejects cs (snd (run_call rejects c s))"

section \<open>The spec's words, and stand-ins for the platform\<close>

text \<open>
  The spec's literal IPv4 host \<open>a.b.c.d\<close>, for stating which hosts the classifier is
  claimed to accept.
\<close>

definition dotted_quad :: "nat \<Rightarrow> nat \<Rightarrow> nat \<Rightarrow> nat \<Rightarrow> string" where
  "dotted_quad a b c d = dec a @ ''.'' @ dec b @ ''.'' @ dec c @ ''.'' @ dec d"

text \<open>
  The spec's list of private prefixes: \<open>10.\<close>, \<open>127.\<close>, \<open>172.16.\<close> to \<open>172.31.\<close>,
  \<open>192.168.\<close>, \<open>fc00:\<close> and \<open>fe80:\<close>. It is compared with what the regular
  expressions of the source accept.
\<close>

definition spec_second_octets :: "string list" where
  "spec_second_octets = map dec [16 ..< 32]"

definition spec_private_prefixes :: "string list" where
  "spec_private_prefixes =
     [''10.'', ''127.''] @ map (\<lambda>o2. ''172.'' @ o2 @ ''.'') spec_second_octets @
     [''192.168.'', ''fc00:'', ''fe80:'']"

text \<open>
  A stand-in for the URL constructor on the inputs of the examples below; every other
  string is treated as one that does not parse. As the URL Standard has it, the
  \<open>hostname\<close> of a URL with an IPv6 host is the address in square brackets.
\<close>

definition example_parseURL :: url_parser where
  "example_parseURL u =
     (if u = ''http://10.0.0.1:8080/admin?x=1'' then
        Inr \<lparr>protocol = ''http:'', hostname = ''10.0.0.1'', port = ''8080'',
             pathname = ''/admin'', search = ''?x=1''\<rparr>
      else if u = ''https://10.0.0.1/'' then
        Inr \<lparr>protocol = ''https:'', hostname = ''10.0.0.1'', port = [],
             pathname = ''/'', search = []\<rparr>
      else if u = ''http://10.example.com/'' then
        Inr \<lparr>protocol = ''http:'', hostname = ''10.example.com'', port = [],
             pathname = ''/'', search = []\<rparr>
      else if u = ''https://8.8.8.8/'' then
        Inr \<lparr>protocol = ''https:'', hostname = ''8.8.8.8'', port = [],
             pathname = ''/'', search = []\<rparr>
      else if u = ''http://[::1]/'' then
        Inr \<lparr>protocol = ''http:'', hostname = ''[::1]'', port = [],
             pathname = ''/'', search = []\<rparr>
      else if u = ''http://[fc00::1]/'' then
        Inr \<lparr>protocol = ''http:'', hostname = ''[fc00::1]'', port = [],
             pathname = ''/'', search = []\<rparr>
      else if u = ''http://[fe80::1]/'' then
        Inr \<lparr>protocol = ''http:'', hostname = ''[fe80::1]'', port = [],
             pathname = ''/'', search = []\<rparr>
      else Inl (JsError ''TypeError'' ''Invalid URL'' (JStr ''ERR_INVALID_URL'') None))"

text \<open>
  Stand-ins for the two helpers of \<open>./errors.js\<close>: an error counts as a Node error when
  it carries a code, and its message is its \<open>message\<close> property.
\<close>

definition example_isNodeError :: "js_error \<Rightarrow> bool" where
  "example_isNodeError error = (err_code error \<noteq> JUndefined)"

definition example_getErrorMessage :: "js_error \<Rightarrow> string" where
  "example_getErrorMessage error = err_message error"

text \<open>
  Two rejections of a request: a connection reset, and the value \<open>fetch\<close> rejects with
  when its signal is aborted by \<open>controller.abort()\<close> without a reason, the
  \<open>DOMException\<close> named \<open>AbortError\<close>, whose \<open>code\<close> is the number 20.
\<close>

definition conn_reset :: js_error where
  "conn_reset = JsError ''Error'' ''read ECONNRESET'' (JStr ''ECONNRESET'') None"

definition dom_abort_error :: js_error where
  "dom_abort_error = JsError ''AbortError'' ''This operation was aborted'' (JNum 20) None"

text \<open>
  Three runs of a request, the response being its status code: the connection is reset at
  once; nothing answers, the timer fires and the request is aborted; the server answers.
\<close>

definition fetch_reset :: "string \<Rightarrow> nat \<Rightarrow> nat fetch_run" where
  "fetch_reset u timeout = \<lparr>timer_fired = False, outcome = Rejected conn_reset\<rparr>"

definition fetch_hang :: "string \<Rightarrow> nat \<Rightarrow> nat fetch_run" where
  "fetch_hang u timeout = \<lparr>timer_fired = True, outcome = Rejected dom_abort_error\<rparr>"

definition fetch_ok :: "string \<Rightarrow> nat \<Rightarrow> nat fetch_run" where
  "fetch_ok u timeout = \<lparr>timer_fired = False, outcome = Fulfilled 200\<rparr>"

text \<open>A process at start: no dispatcher set, no timer pending.\<close>

definition process0 :: process where
  "process0 = \<lparr>global_dispatcher = None, timers = {}, next_timer = 0\<rparr>"

text \<open>
  A stand-in for undici's \<open>ProxyAgent\<close> constructor on the inputs of the examples below.
  On the spec's example of a bad proxy URI its \<open>new URL(opts.uri)\<close> throws the
  \<open>TypeError\<close> of \<open>node:url\<close>; on a URI with a path the pool it builds refuses the
  origin with undici's \<open>InvalidArgumentError\<close>; every other string is accepted.
\<close>

definition example_rejects :: "string \<Rightarrow> js_error option" where
  "example_rejects u =
     (if u = ''not a uri''
      then Some (JsError ''TypeError'' ''Invalid URL'' (JStr ''ERR_INVALID_URL'') None)
      else if u = ''http://proxy.local:8080/path''
      then Some (JsError ''InvalidArgumentError'' ''invalid url'' (JStr ''UND_ERR_INVALID_ARG'') None)
      else None)"

section \<open>Properties of the regular expressions\<close>

lemma in_class:
  assumes "(of_char x :: nat) \<in> of_char ` set cs"
  shows "x \<in> set cs"
proof -
  from assms obtain c where c: "c \<in> set cs" "(of_char x :: nat) = of_char c" by blast
  from c(2) have "x = c" by (simp only: of_char_eq_iff)
  with c(1) show ?thesis by simp
qed

lemma class_6_9:
  "(of_char CHR ''6'' :: nat) \<le> of_char x \<and> (of_char x :: nat) \<le> of_char CHR ''9''
     \<longleftrightarrow> x \<in> set ''6789''"
proof
  assume "(of_char CHR ''6'' :: nat) \<le> of_char x \<and> (of_char x :: nat) \<le> of_char CHR ''9''"
  then have "(of_char x :: nat) \<in> of_char ` set ''6789''" by (simp, arith)
  then show "x \<in> set ''6789''" by (rule in_class)
next
  assume "x \<in> set ''6789''"
  then show "(of_char CHR ''6'' :: nat) \<le> of_char x \<and> (of_char x :: nat) \<le> of_char CHR ''9''"
    by auto
qed

lemma class_0_9:
  "(of_char CHR ''0'' :: nat) \<le> of_char x \<and> (of_char x :: nat) \<le> of_char CHR ''9''
     \<longleftrightarrow> x \<in> set ''0123456789''"
proof
  assume "(of_char CHR ''0'' :: nat) \<le> of_char x \<and> (of_char x :: nat) \<le> of_char CHR ''9''"
  then have "(of_char x :: nat) \<in> of_char ` set ''0123456789''" by (simp, arith)
  then show "x \<in> set ''0123456789''" by (rule in_class)
next
  assume "x \<in> set ''0123456789''"
  then show "(of_char CHR ''0'' :: nat) \<le> of_char x \<and> (of_char x :: nat) \<le> of_char CHR ''9''"
    by auto
qed

lemma class_0_1:
  "(of_char CHR ''0'' :: nat) \<le> of_char x \<and> (of_char x :: nat) \<le> of_char CHR ''1''
     \<longleftrightarrow> x \<in> set ''01''"
proof
  assume "(of_char CHR ''0'' :: nat) \<le> of_char x \<and> (of_char x :: nat) \<le> of_char CHR ''1''"
  then have "(of_char x :: nat) \<in> of_char ` set ''01''" by (simp, arith)
  then show "x \<in> set ''01''" by (rule in_class)
next
  assume "x \<in> set ''01''"
  then show "(of_char CHR ''0'' :: nat) \<le> of_char x \<and> (of_char x :: nat) \<le> of_char CHR ''1''"
    by auto
qed

lemma digit_vals:
  "digit 0 = CHR ''0''" "digit (Suc 0) = CHR ''1''" "digit 1 = CHR ''1''"
  "digit 2 = CHR ''2''" "digit 3 = CHR ''3''" "digit 4 = CHR ''4''" "digit 5 = CHR ''5''"
  "digit 6 = CHR ''6''" "digit 7 = CHR ''7''" "digit 8 = CHR ''8''" "digit 9 = CHR ''9''"
  by code_simp+

lemma dec_two_digits:
  "10 \<le> n \<Longrightarrow> n < 100 \<Longrightarrow> dec n = [digit (n div 10), digit (n mod 10)]"
  by (subst dec.simps, simp, subst dec.simps, simp)

lemma dec_small:
  "dec 10 = ''10''" "dec 127 = ''127''" "dec 172 = ''172''" "dec 192 = ''192''"
  "dec 168 = ''168''"
  by (simp_all add: dec.simps digit_vals)

lemma spec_second_octets_eq:
  "spec_second_octets =
     [''16'', ''17'', ''18'', ''19'', ''20'', ''21'', ''22'', ''23'',
      ''24'', ''25'', ''26'', ''27'', ''28'', ''29'', ''30'', ''31'']"
  by (simp add: spec_second_octets_def dec_two_digits digit_vals upt_rec_numeral)

lemma spec_private_prefixes_eq:
  "spec_private_prefixes =
     [''10.'', ''127.'', ''172.16.'', ''172.17.'', ''172.18.'', ''172.19.'', ''172.20.'',
      ''172.21.'', ''172.22.'', ''172.23.'', ''172.24.'', ''172.25.'', ''172.26.'',
      ''172.27.'', ''172.28.'', ''172.29.'', ''172.30.'', ''172.31.'', ''192.168.'',
      ''fc00:'', ''fe80:'']"
  by (simp add: spec_private_prefixes_def spec_second_octets_eq)

lemma rmatch_lit:
  "rmatch (lit w) (b, s) = (if prefix w s then [(b \<and> w = [], drop (length w) s)] else [])"
  by (induction w arbitrary: b s) (auto split: list.splits)

lemma rmatch_Seq_lit:
  "rmatch (Seq (lit w) r) (b, s) =
     (if prefix w s then rmatch r (b \<and> w = [], drop (length w) s) else [])"
  by (simp only: rmatch.simps rmatch_lit) simp

lemma regex_test_anchored: "regex_test (Seq Bol r) s = (rmatch r (True, s) \<noteq> [])"
  by (simp add: regex_test_def list_ex_iff del: upt_Suc)

lemma regex_test_lit: "regex_test (Seq Bol (lit w)) s = prefix w s"
  by (simp add: regex_test_anchored rmatch_lit)

lemma regex_test_loopback: "regex_test (Seq Bol (Seq (lit ''::1'') Eol)) s = (s = ''::1'')"
  apply (simp only: regex_test_anchored rmatch_Seq_lit)
  apply (auto simp: prefix_def)
  done

lemma rmatch_172:
  "rmatch (Seq (lit ''172.'')
         (Seq (Alt (Seq (Chr CHR ''1'') (Range CHR ''6'' CHR ''9''))
              (Alt (Seq (Chr CHR ''2'') (Range CHR ''0'' CHR ''9''))
                   (Seq (Chr CHR ''3'') (Range CHR ''0'' CHR ''1''))))
              (Chr CHR ''.''))) (True, s) \<noteq> [] \<longleftrightarrow>
   (\<exists>o2 \<in> set spec_second_octets. prefix (''172.'' @ o2 @ ''.'') s)"
  (is "?L s \<longleftrightarrow> ?R s")
proof (cases "prefix ''172.'' s")
  case False
  then have "\<And>o2. \<not> prefix (''172.'' @ o2 @ ''.'') s"
    by (meson append_prefixD)
  then have "\<not> ?R s" by blast
  moreover from False have "\<not> ?L s" by (simp only: rmatch_Seq_lit) simp
  ultimately show ?thesis by blast
next
  case True
  then obtain t where s: "s = ''172.'' @ t" by (auto simp: prefix_def)
  have short: "length t < 3 \<Longrightarrow> \<not> ?L s \<and> \<not> ?R s"
    unfolding s spec_second_octets_eq
    apply (simp only: rmatch_Seq_lit)
    apply (cases t; simp)
    subgoal for d1 t1 by (cases t1; simp)
    done
  have long: "t = d1 # d2 # d3 # t3 \<Longrightarrow> ?L s \<longleftrightarrow> ?R s" for d1 d2 d3 t3
    unfolding s spec_second_octets_eq
    apply (simp only: rmatch_Seq_lit)
    apply (simp add: class_6_9 class_0_9 class_0_1 del: of_char_Char)
    apply auto
    done
  show ?thesis
  proof (cases "length t < 3")
    case True with short show ?thesis by blast
  next
    case False
    then obtain d1 d2 d3 t3 where "t = d1 # d2 # d3 # t3"
      by (cases t; simp; cases "tl t"; simp; cases "tl (tl t)"; simp)
    with long show ?thesis by blast
  qed
qed

text \<open>
  The seven expressions together accept exactly the hosts that start with one of the
  spec's prefixes, and the host \<open>::1\<close>.
\<close>

lemma private_host_iff:
  "list_ex (\<lambda>range. regex_test range h) PRIVATE_IP_RANGES \<longleftrightarrow>
     list_ex (\<lambda>p. prefix p h) spec_private_prefixes \<or> h = ''::1''"
  unfolding PRIVATE_IP_RANGES_def spec_private_prefixes_def
  apply (simp only: list_ex_Nil_iff list_ex_Cons_iff list_ex_append list.map
      regex_test_lit regex_test_loopback)
  apply (simp only: regex_test_anchored rmatch_172)
  apply (auto simp: list_ex_iff)
  done

lemma isPrivateIp_parsed:
  "parseURL u = Inr parsed \<Longrightarrow>
   isPrivateIp parseURL u =
     Inr (list_ex (\<lambda>p. prefix p (hostname parsed)) spec_private_prefixes \<or>
          hostname parsed = ''::1'')"
  by (simp add: isPrivateIp_def isPrivateIp_try_def private_host_iff)

lemma private_prefixI:
  "p \<in> set spec_private_prefixes \<Longrightarrow> prefix p h \<Longrightarrow>
   list_ex (\<lambda>p. prefix p h) spec_private_prefixes"
  by (auto simp: list_ex_iff)

lemma second_octet_prefix:
  "16 \<le> b \<Longrightarrow> b \<le> 31 \<Longrightarrow> ''172.'' @ dec b @ ''.'' \<in> set spec_private_prefixes"
proof -
  assume "16 \<le> b" "b \<le> 31"
  then have "dec b \<in> set spec_second_octets"
    by (simp only: spec_second_octets_def set_map set_upt) (rule imageI, simp)
  then show ?thesis
    by (simp add: spec_private_prefixes_def)
qed

lemma fixed_prefixes:
  "''10.'' \<in> set spec_private_prefixes" "''127.'' \<in> set spec_private_prefixes"
  "''192.168.'' \<in> set spec_private_prefixes" "''fc00:'' \<in> set spec_private_prefixes"
  "''fe80:'' \<in> set spec_private_prefixes"
  by (simp_all add: spec_private_prefixes_def)

section \<open>HostClassifier\<close>

text \<open>
  The IPv4 part of the spec's list holds: a URL whose host is a dotted quad \<open>10.b.c.d\<close>,
  \<open>127.b.c.d\<close>, \<open>172.b.c.d\<close> with \<open>b\<close> from 16 to 31, or \<open>192.168.c.d\<close> is classified
  private, and a URL whose host is \<open>8.8.8.8\<close> or \<open>example.com\<close> is not.
\<close>

lemma isPrivateIp_ipv4_literals:
  "parseURL u = Inr parsed \<Longrightarrow>
   ((hostname parsed = dotted_quad 10 b c d \<or>
     hostname parsed = dotted_quad 127 b c d \<or>
     (16 \<le> b \<and> b \<le> 31 \<and> hostname parsed = dotted_quad 172 b c d) \<or>
     hostname parsed = dotted_quad 192 168 c d)
      \<longrightarrow> isPrivateIp parseURL u = Inr True) \<and>
   ((hostname parsed = ''8.8.8.8'' \<or> hostname parsed = ''example.com'')
      \<longrightarrow> isPrivateIp parseURL u = Inr False)"
proof -
  assume p: "parseURL u = Inr parsed"
  let ?h = "hostname parsed"
  let ?P = "list_ex (\<lambda>p. prefix p ?h) spec_private_prefixes"
  have c10: "?h = dotted_quad 10 b c d \<Longrightarrow> ?P"
    by (rule private_prefixI[OF fixed_prefixes(1)]) (simp add: dotted_quad_def dec_small)
  have c127: "?h = dotted_quad 127 b c d \<Longrightarrow> ?P"
    by (rule private_prefixI[OF fixed_prefixes(2)]) (simp add: dotted_quad_def dec_small)
  have c172: "16 \<le> b \<Longrightarrow> b \<le> 31 \<Longrightarrow> ?h = dotted_quad 172 b c d \<Longrightarrow> ?P"
    by (rule private_prefixI[OF second_octet_prefix[of b]])
      (simp_all add: dotted_quad_def dec_small)
  have c192: "?h = dotted_quad 192 168 c d \<Longrightarrow> ?P"
    by (rule private_prefixI[OF fixed_prefixes(3)]) (simp add: dotted_quad_def dec_small)
  have neg: "\<not> list_ex (\<lambda>p. prefix p h) spec_private_prefixes \<and> h \<noteq> ''::1''"
    if "h = ''8.8.8.8'' \<or> h = ''example.com''" for h
    using that by (auto simp: spec_private_prefixes_eq)
  show ?thesis
    unfolding isPrivateIp_parsed[of parseURL u parsed, OF p]
    using c10 c127 c172 c192 neg[of ?h] by blast
qed

text \<open>
  A host in square brackets is never classified private: none of the seven expressions
  accepts a string that starts with a bracket.
\<close>

lemma bracketed_host_not_private:
  "parseURL u = Inr parsed \<Longrightarrow> prefix ''['' (hostname parsed) \<Longrightarrow>
   isPrivateIp parseURL u = Inr False"
proof -
  assume p: "parseURL u = Inr parsed" and b: "prefix ''['' (hostname parsed)"
  from b obtain t where h: "hostname parsed = CHR ''['' # t"
    by (auto simp: prefix_def)
  show ?thesis
    unfolding isPrivateIp_parsed[of parseURL u parsed, OF p]
    by (simp add: h spec_private_prefixes_eq)
qed

text \<open>
  C4 fails for the IPv6 part of the list. The source means to classify \<open>::1\<close>, \<open>fc00:\<close>
  and \<open>fe80:\<close> hosts as private, but the hostname of a URL with such a host is the
  bracketed address, which the expressions \<open>^::1$\<close>, \<open>^fc00:\<close> and \<open>^fe80:\<close> do not
  match: the URLs of the loopback, a unique-local and a link-local address are classified
  as not private.
\<close>

theorem isPrivateIp_ipv6_literals_missed:
  "isPrivateIp example_parseURL ''http://[::1]/'' = Inr False \<and>
   isPrivateIp example_parseURL ''http://[fc00::1]/'' = Inr False \<and>
   isPrivateIp example_parseURL ''http://[fe80::1]/'' = Inr False"
proof (intro conjI)
  show "isPrivateIp example_parseURL ''http://[::1]/'' = Inr False"
    by (rule bracketed_host_not_private
        [of _ _ "\<lparr>protocol = ''http:'', hostname = ''[::1]'', port = [],
                  pathname = ''/'', search = []\<rparr>"])
      (simp_all add: example_parseURL_def)
  show "isPrivateIp example_parseURL ''http://[fc00::1]/'' = Inr False"
    by (rule bracketed_host_not_private
        [of _ _ "\<lparr>protocol = ''http:'', hostname = ''[fc00::1]'', port = [],
                  pathname = ''/'', search = []\<rparr>"])
      (simp_all add: example_parseURL_def)
  show "isPrivateIp example_parseURL ''http://[fe80::1]/'' = Inr False"
    by (rule bracketed_host_not_private
        [of _ _ "\<lparr>protocol = ''http:'', hostname = ''[fe80::1]'', port = [],
                  pathname = ''/'', search = []\<rparr>"])
      (simp_all add: example_parseURL_def)
qed

text \<open>
  C5. A string that the URL constructor refuses is classified as not private, and the
  call returns a value whatever the input: no exception leaves \<open>isPrivateIp\<close>.
\<close>

theorem isPrivateIp_malformed:
  "(parseURL u = Inl e \<longrightarrow> isPrivateIp parseURL u = Inr False) \<and>
   (\<exists>b. isPrivateIp parseURL u = Inr b)"
  by (cases "parseURL u") (auto simp: isPrivateIp_def isPrivateIp_try_def)

theorem isPrivateIp_malformed_witness:
  "example_parseURL ''not a url'' =
     Inl (JsError ''TypeError'' ''Invalid URL'' (JStr ''ERR_INVALID_URL'') None) \<and>
   isPrivateIp example_parseURL ''not a url'' = Inr False"
  using isPrivateIp_malformed [of example_parseURL "''not a url''"]
  by (simp add: example_parseURL_def)

text \<open>
  C10. The classification looks at the text of the host only: a parsed URL is private
  exactly when its host starts with one of \<open>10.\<close>, \<open>127.\<close>, \<open>172.16.\<close> to \<open>172.31.\<close>,
  \<open>192.168.\<close>, \<open>fc00:\<close>, \<open>fe80:\<close> (or is \<open>::1\<close>), so the domain name
  \<open>10.example.com\<close> is private, and two URLs with the same host get the same answer
  whatever their scheme, port, path and query.
\<close>

theorem isPrivateIp_textual_prefix:
  "(parseURL u = Inr parsed \<longrightarrow>
      isPrivateIp parseURL u =
        Inr (list_ex (\<lambda>p. prefix p (hostname parsed)) spec_private_prefixes \<or>
             hostname parsed = ''::1'')) \<and>
   (parseURL u = Inr parsed \<and> hostname parsed = ''10.example.com'' \<longrightarrow>
      isPrivateIp parseURL u = Inr True) \<and>
   (parseURL u = Inr parsed \<and> parseURL u' = Inr parsed' \<and> hostname parsed = hostname parsed' \<longrightarrow>
      isPrivateIp parseURL u = isPrivateIp parseURL u')"
proof (intro conjI impI)
  assume "parseURL u = Inr parsed"
  then show "isPrivateIp parseURL u =
        Inr (list_ex (\<lambda>p. prefix p (hostname parsed)) spec_private_prefixes \<or>
             hostname parsed = ''::1'')"
    by (rule isPrivateIp_parsed)
next
  assume "parseURL u = Inr parsed \<and> hostname parsed = ''10.example.com''"
  then show "isPrivateIp parseURL u = Inr True"
    by (simp add: isPrivateIp_parsed[of parseURL u parsed] spec_private_prefixes_eq)
next
  assume "parseURL u = Inr parsed \<and> parseURL u' = Inr parsed' \<and> hostname parsed = hostname parsed'"
  then show "isPrivateIp parseURL u = isPrivateIp parseURL u'"
    by (simp add: isPrivateIp_parsed[of parseURL u parsed] isPrivateIp_parsed[of parseURL u' parsed'])
qed

theorem isPrivateIp_textual_prefix_witness:
  "isPrivateIp example_parseURL ''http://10.example.com/'' = Inr True \<and>
   isPrivateIp example_parseURL ''http://10.0.0.1:8080/admin?x=1'' =
     isPrivateIp example_parseURL ''https://10.0.0.1/''"
proof
  show "isPrivateIp example_parseURL ''http://10.example.com/'' = Inr True"
    using isPrivateIp_textual_prefix
      [of example_parseURL "''http://10.example.com/''"
        "\<lparr>protocol = ''http:'', hostname = ''10.example.com'', port = [],
          pathname = ''/'', search = []\<rparr>"
        "''http://10.example.com/''"
        "\<lparr>protocol = ''http:'', hostname = ''10.example.com'', port = [],
          pathname = ''/'', search = []\<rparr>"]
    by (auto simp: example_parseURL_def)
  show "isPrivateIp example_parseURL ''http://10.0.0.1:8080/admin?x=1'' =
     isPrivateIp example_parseURL ''https://10.0.0.1/''"
    using isPrivateIp_textual_prefix
      [of example_parseURL "''http://10.0.0.1:8080/admin?x=1''"
        "\<lparr>protocol = ''http:'', hostname = ''10.0.0.1'', port = ''8080'',
          pathname = ''/admin'', search = ''?x=1''\<rparr>"
        "''https://10.0.0.1/''"
        "\<lparr>protocol = ''https:'', hostname = ''10.0.0.1'', port = [],
          pathname = ''/'', search = []\<rparr>"]
    by (auto simp: example_parseURL_def)
qed

section \<open>TimeoutGuardedRequest\<close>

lemma fetchWithTimeout_result:
  "fst (fetchWithTimeout isNodeError getErrorMessage fetch u timeout s) =
     (case outcome (fetch u timeout) of
        Fulfilled response \<Rightarrow> Inr response
      | Rejected error \<Rightarrow>
          Inl (fetchWithTimeout_catch isNodeError getErrorMessage timeout error))"
  by (simp add: fetchWithTimeout_def setTimeout_def await_fetch_def Let_def split: prod.splits)

lemma fetchWithTimeout_timers:
  "timers (snd (fetchWithTimeout isNodeError getErrorMessage fetch u timeout s)) =
     timers s - {next_timer s}"
  by (auto simp: fetchWithTimeout_def setTimeout_def await_fetch_def clearTimeout_def Let_def
      split: prod.splits)

lemma js_error_acyclic: "JsError n m c (Some e) \<noteq> e"
proof
  assume "JsError n m c (Some e) = e"
  then have "size (JsError n m c (Some e)) = size e" by simp
  then show False by simp
qed

lemma timeout_message_mentions:
  "sublist (dec timeout) (''Request timed out after '' @ dec timeout @ ''ms'')"
  unfolding sublist_def by blast

text \<open>
  C1, as stated, fails. A request is rejected with a connection reset whose code is
  \<open>ECONNRESET\<close>: the error thrown has the rejection as its cause, but its own \<open>code\<close>
  is \<open>undefined\<close>, since the source passes \<open>undefined\<close> to the constructor.
\<close>

theorem fetchWithTimeout_code_not_copied:
  "fst (fetchWithTimeout example_isNodeError example_getErrorMessage fetch_reset
          ''https://example.com/'' 50 process0) =
     Inl (FetchError ''read ECONNRESET'' JUndefined (Some conn_reset)) \<and>
   err_cause (FetchError ''read ECONNRESET'' JUndefined (Some conn_reset)) = Some conn_reset \<and>
   err_code conn_reset = JStr ''ECONNRESET'' \<and>
   err_code (FetchError ''read ECONNRESET'' JUndefined (Some conn_reset)) \<noteq> err_code conn_reset"
  by (simp add: fetchWithTimeout_result fetch_reset_def fetchWithTimeout_catch_def
      example_isNodeError_def example_getErrorMessage_def conn_reset_def FetchError_def)

text \<open>
  C1, amended. When the request is rejected with an error that the \<open>catch\<close> block does
  not take for the abort, the call fails with a \<open>FetchError\<close> whose cause is that very
  error and whose message is the one \<open>getErrorMessage\<close> gives for it; its own \<open>code\<close> is
  \<open>undefined\<close>, and the original code is read through the cause.
\<close>

theorem fetchWithTimeout_wraps_cause:
  "outcome (fetch u timeout) = Rejected error \<Longrightarrow>
   \<not> (isNodeError error \<and> err_code error = JStr ''ABORT_ERR'') \<Longrightarrow>
   \<exists>fe. fst (fetchWithTimeout isNodeError getErrorMessage fetch u timeout s) = Inl fe \<and>
        err_name fe = ''FetchError'' \<and>
        err_message fe = getErrorMessage error \<and>
        err_cause fe = Some error \<and>
        err_code fe = JUndefined \<and>
        map_option err_code (err_cause fe) = Some (err_code error)"
  by (auto simp: fetchWithTimeout_result fetchWithTimeout_catch_def FetchError_def)

theorem fetchWithTimeout_wraps_cause_witness:
  "\<exists>fe. fst (fetchWithTimeout example_isNodeError example_getErrorMessage fetch_reset
          ''https://example.com/'' 50 process0) = Inl fe \<and>
        err_name fe = ''FetchError'' \<and>
        err_message fe = ''read ECONNRESET'' \<and>
        err_cause fe = Some conn_reset \<and>
        err_code fe = JUndefined \<and>
        map_option err_code (err_cause fe) = Some (JStr ''ECONNRESET'')"
  using fetchWithTimeout_wraps_cause
    [of fetch_reset "''https://example.com/''" 50 conn_reset example_isNodeError
        example_getErrorMessage process0]
  by (simp add: fetch_reset_def conn_reset_def example_getErrorMessage_def)

text \<open>
  The branch of line 52: a rejection that is a Node error with the code \<open>ABORT_ERR\<close>
  is turned into the timeout error, whose message contains the timeout.
\<close>

lemma fetchWithTimeout_recognised_abort:
  "outcome (fetch u timeout) = Rejected error \<Longrightarrow>
   isNodeError error \<Longrightarrow> err_code error = JStr ''ABORT_ERR'' \<Longrightarrow>
   \<exists>fe. fst (fetchWithTimeout isNodeError getErrorMessage fetch u timeout s) = Inl fe \<and>
        err_message fe = ''Request timed out after '' @ dec timeout @ ''ms'' \<and>
        sublist (dec timeout) (err_message fe) \<and>
        err_code fe = JStr ''ETIMEDOUT''"
  using timeout_message_mentions [of timeout]
  by (simp add: fetchWithTimeout_result fetchWithTimeout_catch_def FetchError_def)

text \<open>
  C2 fails on a real timeout. Nothing answers within 50 ms, the timer fires, the request
  is aborted and \<open>fetch\<close> rejects with its abort value, whose code is the number 20 and
  not the string \<open>ABORT_ERR\<close>. Line 52 does not recognise it, so line 55 runs: the error
  thrown is the ordinary wrapper, with no code, and its message is that of the abort value
  and does not contain the timeout.
\<close>

theorem fetchWithTimeout_timeout_misclassified:
  "timer_fired (fetch_hang ''https://example.com/'' 50) \<and>
   fst (fetchWithTimeout example_isNodeError example_getErrorMessage fetch_hang
          ''https://example.com/'' 50 process0) =
     Inl (FetchError ''This operation was aborted'' JUndefined (Some dom_abort_error)) \<and>
   err_code (FetchError ''This operation was aborted'' JUndefined (Some dom_abort_error)) \<noteq>
     JStr ''ETIMEDOUT'' \<and>
   \<not> sublist (dec 50)
       (err_message (FetchError ''This operation was aborted'' JUndefined (Some dom_abort_error)))"
proof -
  have "CHR ''5'' \<notin> set ''This operation was aborted''" by simp
  then have "\<not> sublist ''50'' ''This operation was aborted''"
    by (meson list.set_intros(1) set_mono_sublist subsetD)
  then show ?thesis
    by (simp add: fetchWithTimeout_result fetch_hang_def fetchWithTimeout_catch_def
        example_isNodeError_def example_getErrorMessage_def dom_abort_error_def FetchError_def
        dec.simps digit_vals)
qed

text \<open>
  C3. The timer the call starts is pending while the request is awaited and is not
  pending once the call has returned or thrown, whatever the request did (answered,
  failed, or was aborted by the timer); no other timer is touched, so in a process whose
  pending timers all precede the new one the table of timers is as before the call.
\<close>

theorem fetchWithTimeout_clears_timer:
  "next_timer s \<in> timers (snd (setTimeout timeout s)) \<and>
   next_timer s \<notin> timers (snd (fetchWithTimeout isNodeError getErrorMessage fetch u timeout s)) \<and>
   timers (snd (fetchWithTimeout isNodeError getErrorMessage fetch u timeout s)) =
     timers s - {next_timer s} \<and>
   ((\<forall>i \<in> timers s. i < next_timer s) \<longrightarrow>
      timers (snd (fetchWithTimeout isNodeError getErrorMessage fetch u timeout s)) = timers s)"
  by (auto simp: fetchWithTimeout_timers setTimeout_def)

theorem fetchWithTimeout_clears_timer_witness:
  "timers (snd (fetchWithTimeout example_isNodeError example_getErrorMessage fetch_hang
      ''https://example.com/'' 50 (process0\<lparr>timers := {0, 1}, next_timer := 2\<rparr>))) = {0, 1} \<and>
   timers (snd (fetchWithTimeout example_isNodeError example_getErrorMessage fetch_ok
      ''https://example.com/'' 50 (process0\<lparr>timers := {0, 1}, next_timer := 2\<rparr>))) = {0, 1} \<and>
   timers (snd (fetchWithTimeout example_isNodeError example_getErrorMessage fetch_reset
      ''https://example.com/'' 50 (process0\<lparr>timers := {0, 1}, next_timer := 2\<rparr>))) = {0, 1}"
  using fetchWithTimeout_clears_timer
    [of "process0\<lparr>timers := {0, 1}, next_timer := 2\<rparr>" 50 example_isNodeError
        example_getErrorMessage fetch_hang "''https://example.com/''"]
    fetchWithTimeout_clears_timer
    [of "process0\<lparr>timers := {0, 1}, next_timer := 2\<rparr>" 50 example_isNodeError
        example_getErrorMessage fetch_ok "''https://example.com/''"]
    fetchWithTimeout_clears_timer
    [of "process0\<lparr>timers := {0, 1}, next_timer := 2\<rparr>" 50 example_isNodeError
        example_getErrorMessage fetch_reset "''https://example.com/''"]
  by (simp add: process0_def)

text \<open>
  The wrapping half of C9 holds: every failure of \<open>fetchWithTimeout\<close> is a \<open>FetchError\<close>
  built from a rejection of the request and is never that rejection itself.
\<close>

lemma fetchWithTimeout_failure_shape:
  "fst (fetchWithTimeout isNodeError getErrorMessage fetch u timeout s) = Inl fe \<Longrightarrow>
   \<exists>error. outcome (fetch u timeout) = Rejected error \<and>
     fe \<noteq> error \<and>
     err_name fe = ''FetchError'' \<and>
     (if isNodeError error \<and> err_code error = JStr ''ABORT_ERR''
      then err_code fe = JStr ''ETIMEDOUT'' \<and> err_cause fe = None
      else err_code fe = JUndefined \<and> err_cause fe = Some error)"
  by (cases "outcome (fetch u timeout)")
    (auto simp: fetchWithTimeout_result fetchWithTimeout_catch_def FetchError_def js_error_acyclic)

text \<open>
  C9 fails for the timeout failures. Whatever the two helpers of \<open>./errors.js\<close> answer,
  and for every URL and timeout, the failure of a call whose timer fired and whose request
  was aborted is a \<open>FetchError\<close> without a code: it does not carry \<open>ETIMEDOUT\<close>.
\<close>

theorem fetchWithTimeout_timeout_without_code:
  "timer_fired (fetch_hang u timeout) \<and>
   fst (fetchWithTimeout isNodeError getErrorMessage fetch_hang u timeout s) =
     Inl (FetchError (getErrorMessage dom_abort_error) JUndefined (Some dom_abort_error)) \<and>
   err_name (FetchError (getErrorMessage dom_abort_error) JUndefined (Some dom_abort_error)) =
     ''FetchError'' \<and>
   err_code (FetchError (getErrorMessage dom_abort_error) JUndefined (Some dom_abort_error)) \<noteq>
     JStr ''ETIMEDOUT''"
  by (simp add: fetchWithTimeout_result fetch_hang_def fetchWithTimeout_catch_def
      dom_abort_error_def FetchError_def)

section \<open>TransportConfigurator\<close>

lemma run_calls_snoc:
  "run_calls rejects (cs @ [c]) s = snd (run_call rejects c (run_calls rejects cs s))"
  by (induction cs arbitrary: s) simp_all

lemma run_call_result_independent:
  "fst (run_call rejects c s) = fst (run_call rejects c s0)"
  by (cases c) (auto simp: enableHttp2_def setGlobalProxy_def new_ProxyAgent_def split: option.splits)

lemma run_call_success_dispatcher:
  "fst (run_call rejects c s) = Inr () \<Longrightarrow>
   global_dispatcher (snd (run_call rejects c s)) = global_dispatcher (snd (run_call rejects c s0))"
  by (cases c)
    (auto simp: enableHttp2_def setGlobalProxy_def new_ProxyAgent_def setGlobalDispatcher_def
      split: option.splits)

lemma run_call_failure_state:
  "fst (run_call rejects c s) = Inl e \<Longrightarrow> snd (run_call rejects c s) = s"
  by (cases c)
    (auto simp: enableHttp2_def setGlobalProxy_def new_ProxyAgent_def setGlobalDispatcher_def
      split: option.splits)

lemma run_call_idem:
  "run_call rejects c (snd (run_call rejects c s)) = run_call rejects c s"
  by (cases c)
    (auto simp: enableHttp2_def setGlobalProxy_def new_ProxyAgent_def setGlobalDispatcher_def
      split: option.splits)

text \<open>
  C6, as stated, fails. \<open>setGlobalProxy\<close> has no check and no error type of its own. On
  the spec's bad URI \<open>not a uri\<close> the error that leaves it is the \<open>TypeError\<close> of the URL
  constructor, not a configuration error; and the well-formed URI
  \<open>http://proxy.local:8080/path\<close> does not succeed, since the constructor refuses a proxy
  URI with a path: the call throws and no dispatcher is installed.
\<close>

theorem setGlobalProxy_validity_counterexample:
  "setGlobalProxy example_rejects ''not a uri'' process0 =
     (Inl (JsError ''TypeError'' ''Invalid URL'' (JStr ''ERR_INVALID_URL'') None), process0) \<and>
   err_name (JsError ''TypeError'' ''Invalid URL'' (JStr ''ERR_INVALID_URL'') None) \<noteq>
     ''ConfigError'' \<and>
   fst (setGlobalProxy example_rejects ''http://proxy.local:8080/path'' process0) \<noteq> Inr () \<and>
   global_dispatcher (snd (setGlobalProxy example_rejects ''http://proxy.local:8080/path'' process0)) =
     None"
  by (simp add: setGlobalProxy_def new_ProxyAgent_def example_rejects_def process0_def)

text \<open>
  C6, amended. \<open>setGlobalProxy\<close> fails exactly when the \<open>ProxyAgent\<close> constructor throws
  for the proxy URI: the constructor's exception leaves the call unchanged and the process
  keeps the state it had; when the constructor accepts the URI, the call succeeds and the
  global dispatcher is a proxy agent for that URI.
\<close>

theorem setGlobalProxy_follows_constructor:
  "(rejects proxy = Some e \<longrightarrow> setGlobalProxy rejects proxy s = (Inl e, s)) \<and>
   (rejects proxy = None \<longrightarrow>
      setGlobalProxy rejects proxy s =
        (Inr (), s\<lparr>global_dispatcher := Some (ProxyAgent proxy True)\<rparr>) \<and>
      map_option proxy_uri (global_dispatcher (snd (setGlobalProxy rejects proxy s))) =
        Some (Some proxy))"
  by (simp add: setGlobalProxy_def new_ProxyAgent_def setGlobalDispatcher_def)

theorem setGlobalProxy_follows_constructor_witness:
  "setGlobalProxy example_rejects ''not a uri'' process0 =
     (Inl (JsError ''TypeError'' ''Invalid URL'' (JStr ''ERR_INVALID_URL'') None), process0) \<and>
   setGlobalProxy example_rejects ''http://proxy.local:8080/path'' process0 =
     (Inl (JsError ''InvalidArgumentError'' ''invalid url'' (JStr ''UND_ERR_INVALID_ARG'') None),
      process0) \<and>
   setGlobalProxy example_rejects ''http://proxy.local:8080'' process0 =
     (Inr (), process0\<lparr>global_dispatcher := Some (ProxyAgent ''http://proxy.local:8080'' True)\<rparr>)"
  using setGlobalProxy_follows_constructor [of example_rejects "''not a uri''" _ process0]
    setGlobalProxy_follows_constructor
      [of example_rejects "''http://proxy.local:8080/path''" _ process0]
    setGlobalProxy_follows_constructor [of example_rejects "''http://proxy.local:8080''" _ process0]
  by (simp add: example_rejects_def)



text \<open>
  C8, as stated, fails. \<open>enableHttp2()\<close> followed by a \<open>setGlobalProxy\<close> that throws
  leaves the agent of the first call installed, while the same \<open>setGlobalProxy\<close> alone
  leaves the process without a dispatcher: the last call does not determine the result.
\<close>

theorem last_call_counterexample:
  "global_dispatcher
     (run_calls example_rejects [EnableHttp2, SetGlobalProxy ''not a uri''] process0) =
     Some (Agent True) \<and>
   global_dispatcher (run_calls example_rejects [SetGlobalProxy ''not a uri''] process0) = None \<and>
   global_dispatcher
     (run_calls example_rejects [EnableHttp2, SetGlobalProxy ''not a uri''] process0) \<noteq>
   global_dispatcher (run_calls example_rejects [SetGlobalProxy ''not a uri''] process0)"
  by (simp add: enableHttp2_def setGlobalProxy_def new_ProxyAgent_def setGlobalDispatcher_def
      example_rejects_def process0_def)

text \<open>
  C8, amended. After any sequence of calls the dispatcher is the one installed by the
  last call if that call completes, from whatever state it is made; a call that throws
  leaves the state of the calls before it; whether a call completes does not depend on the
  configuration it finds; and making the same call twice gives the state of making it once.
\<close>

theorem last_completed_call_wins:
  "(fst (run_call rejects c s0) = Inr () \<longrightarrow>
      global_dispatcher (run_calls rejects (cs @ [c]) s) =
        global_dispatcher (snd (run_call rejects c s0))) \<and>
   (fst (run_call rejects c s0) = Inl e \<longrightarrow>
      run_calls rejects (cs @ [c]) s = run_calls rejects cs s) \<and>
   fst (run_call rejects c s) = fst (run_call rejects c s0) \<and>
   run_calls rejects [c, c] s = run_calls rejects [c] s"
proof (intro conjI impI)
  assume "fst (run_call rejects c s0) = Inr ()"
  then have "fst (run_call rejects c (run_calls rejects cs s)) = Inr ()"
    using run_call_result_independent [of rejects c "run_calls rejects cs s" s0] by simp
  then show "global_dispatcher (run_calls rejects (cs @ [c]) s) =
        global_dispatcher (snd (run_call rejects c s0))"
    using run_call_success_dispatcher [of rejects c "run_calls rejects cs s" s0]
    by (simp add: run_calls_snoc)
next
  assume "fst (run_call rejects c s0) = Inl e"
  then have "fst (run_call rejects c (run_calls rejects cs s)) = Inl e"
    using run_call_result_independent [of rejects c "run_calls rejects cs s" s0] by simp
  then show "run_calls rejects (cs @ [c]) s = run_calls rejects cs s"
    by (simp add: run_calls_snoc run_call_failure_state)
next
  show "fst (run_call rejects c s) = fst (run_call rejects c s0)"
    by (rule run_call_result_independent)
next
  show "run_calls rejects [c, c] s = run_calls rejects [c] s"
    by (simp add: run_call_idem)
qed

theorem last_completed_call_wins_witness:
  "global_dispatcher
     (run_calls example_rejects
        [SetGlobalProxy ''http://proxy.local:8080'', SetGlobalProxy ''not a uri'', EnableHttp2]
        process0) = Some (Agent True) \<and>
   run_calls example_rejects [EnableHttp2, SetGlobalProxy ''not a uri''] process0 =
     run_calls example_rejects [EnableHttp2] process0"
  using last_completed_call_wins
    [of example_rejects EnableHttp2 process0
        "[SetGlobalProxy ''http://proxy.local:8080'', SetGlobalProxy ''not a uri'']" process0]
    last_completed_call_wins
    [of example_rejects "SetGlobalProxy ''not a uri''" process0 "[EnableHttp2]" process0
        "JsError ''TypeError'' ''Invalid URL'' (JStr ''ERR_INVALID_URL'') None"]
  by (simp add: enableHttp2_def setGlobalProxy_def new_ProxyAgent_def setGlobalDispatcher_def
      example_rejects_def)

end
